theory Spec2Isabelle
  imports Complex_Main "HOL-Library.AList"
begin

section \<open>Data model\<close>

text \<open>
  JavaScript numbers that hold quantities, sequence numbers and progress are integers
  (\<open>parseInt(..) || 0\<close> in the inputs); prices and fragment values are modelled as exact
  rationals, so rounding of IEEE doubles is not part of the model. A \<open>Date\<close> is its time
  value in milliseconds, read in local civil time with a fixed offset to UTC (no
  daylight-saving change), so that a calendar day is always 86400000 ms long.
\<close>

type_synonym date = int

text \<open>
  Modelled from the spec: the declaration of \<open>OrderProduct\<close> (module \<open>@/hooks/useFirebase\<close>)
  is not among the sources. The record has the fields the components read, which are the
  ones the data model of the specification lists: identifier, product name, attributes,
  total quantity (an integer) and total price (a decimal). Source names: \<open>id\<close>,
  \<open>product_id\<close>, \<open>product_name\<close>, \<open>size\<close>, \<open>color\<close>, \<open>quantity\<close>, \<open>total_price\<close>; the
  prefix \<open>p_\<close> keeps the field names apart from those of the other records.
\<close>

record OrderProduct =
  p_id :: string
  p_product_id :: "string option"
  p_product_name :: string
  p_size :: string
  p_color :: string
  p_quantity :: int
  p_total_price :: rat

text \<open>
  Modelled from the spec: the declaration of \<open>OrderFragmentType\<close> (module \<open>@/types/order\<close>)
  is not among the sources. The record has the fields the form reads and writes, which are
  the ones the data model of the specification lists for a fragment. The drafts are of type
  \<open>Partial<OrderFragmentType> & { _tempId }\<close>, so every field may be absent (\<open>undefined\<close>).
  Source names: \<open>_tempId\<close>, \<open>id\<close>, \<open>orderId\<close>, \<open>productId\<close>, \<open>productName\<close>, \<open>size\<close>,
  \<open>color\<close>, \<open>fragmentNumber\<close>, \<open>quantity\<close>, \<open>scheduledDate\<close>, \<open>status\<close>, \<open>progress\<close>,
  \<open>value\<close>, \<open>assignedOperator\<close>, \<open>startedAt\<close>, \<open>completedAt\<close>. Persisted fragments
  (\<open>OrderFragmentType\<close>) are values of the same record.
\<close>

record fragment =
  f_tempId :: "string option"
  f_id :: "string option"
  f_orderId :: "string option"
  f_productId :: "string option"
  f_productName :: "string option"
  f_size :: "string option"
  f_color :: "string option"
  f_fragmentNumber :: "int option"
  f_quantity :: "int option"
  f_scheduledDate :: "date option"
  f_status :: "string option"
  f_progress :: "int option"
  f_value :: "rat option"
  f_assignedOperator :: "string option"
  f_startedAt :: "date option"
  f_completedAt :: "date option"

text \<open>The object with no field set.\<close>

definition no_fields :: fragment where
  "no_fields = \<lparr> f_tempId = None, f_id = None, f_orderId = None, f_productId = None,
     f_productName = None, f_size = None, f_color = None, f_fragmentNumber = None,
     f_quantity = None, f_scheduledDate = None, f_status = None, f_progress = None,
     f_value = None, f_assignedOperator = None, f_startedAt = None, f_completedAt = None \<rparr>"

text \<open>
  The props and the state of \<open>OrderFragmentForm\<close>: \<open>order.id\<close>, \<open>products\<close> and
  \<open>initialFragments\<close> are props, \<open>selectedProductId\<close> and \<open>fragments\<close> are the two pieces
  of \<open>useState\<close> the handlers read and write. Every handler is a function of the state of
  the latest render: the component is rendered again between two user events, so the
  \<open>fragments\<close> a handler closes over and the \<open>prev\<close> its updater receives are the same list.
\<close>

record form =
  order_id :: string
  products :: "OrderProduct list"
  initialFragments :: "fragment list"
  selectedProductId :: string
  fragments :: "fragment list"

section \<open>JavaScript idioms\<close>

text \<open>\<open>x || 0\<close> on an optional number: \<open>undefined\<close> and \<open>0\<close> both give \<open>0\<close>.\<close>

definition or0 :: "int option \<Rightarrow> int" where
  "or0 x = (case x of None \<Rightarrow> 0 | Some n \<Rightarrow> n)"

text \<open>Truthiness of an optional number.\<close>

definition truthy_num :: "int option \<Rightarrow> bool" where
  "truthy_num x = (case x of None \<Rightarrow> False | Some n \<Rightarrow> n \<noteq> 0)"

text \<open>A number inside a template literal: decimal digits, with a leading minus sign.\<close>

fun show_nat :: "nat \<Rightarrow> string" where
  "show_nat n = (if n < 10 then [''0123456789'' ! n]
                 else show_nat (n div 10) @ [''0123456789'' ! (n mod 10)])"

declare show_nat.simps [simp del]

definition show_int :: "int \<Rightarrow> string" where
  "show_int i = (if i < 0 then ''-'' @ show_nat (nat (- i)) else show_nat (nat i))"

text \<open>
  \<open>addDays(d, 1)\<close> of the date library and \<open>setHours(0, 0, 0, 0)\<close>, on time values: the same
  time of day on the next calendar day, and the start of the day.
\<close>

definition day_ms :: int where
  "day_ms = 86400000"

definition addDays :: "date \<Rightarrow> int \<Rightarrow> date" where
  "addDays d n = d + n * day_ms"

definition startOfDay :: "date \<Rightarrow> date" where
  "startOfDay d = d - d mod day_ms"

section \<open>OrderFragmentForm: derived values\<close>

definition selectedProduct :: "form \<Rightarrow> OrderProduct option" where
  "selectedProduct s = find (\<lambda>p. p_id p = selectedProductId s) (products s)"

definition productTotalQuantity :: "form \<Rightarrow> int" where
  "productTotalQuantity s = (case selectedProduct s of None \<Rightarrow> 0 | Some p \<Rightarrow> p_quantity p)"

definition productTotalValue :: "form \<Rightarrow> rat" where
  "productTotalValue s = (case selectedProduct s of None \<Rightarrow> 0 | Some p \<Rightarrow> p_total_price p)"

definition calculateFragmentValue :: "form \<Rightarrow> int \<Rightarrow> rat" where
  "calculateFragmentValue s quantity =
     (if productTotalQuantity s = 0 then 0
      else (of_int quantity / of_int (productTotalQuantity s)) * productTotalValue s)"

definition getTotalFragmentQuantity :: "form \<Rightarrow> int" where
  "getTotalFragmentQuantity s =
     foldl (\<lambda>sum fragment. sum + or0 (f_quantity fragment)) 0 (fragments s)"

definition getTotalFragmentValue :: "form \<Rightarrow> rat" where
  "getTotalFragmentValue s =
     foldl (\<lambda>sum fragment. sum + calculateFragmentValue s (or0 (f_quantity fragment))) 0
       (fragments s)"

text \<open>The predicate of \<open>fragments.every\<close>: \<open>f.quantity && f.quantity > 0 && f.scheduledDate\<close>.\<close>

definition filled :: "fragment \<Rightarrow> bool" where
  "filled f = (truthy_num (f_quantity f) \<and> or0 (f_quantity f) > 0 \<and> f_scheduledDate f \<noteq> None)"

text \<open>\<open>isValid\<close> of the first variant of the form (the strict policy).\<close>

definition isValid_v1 :: "form \<Rightarrow> bool" where
  "isValid_v1 s =
     (getTotalFragmentQuantity s = productTotalQuantity s \<and> list_all filled (fragments s))"

text \<open>\<open>isValid\<close> of the second variant of the form (the partial-allowed policy).\<close>

definition isValid_v2 :: "form \<Rightarrow> bool" where
  "isValid_v2 s =
     (getTotalFragmentQuantity s > 0 \<and>
      getTotalFragmentQuantity s \<le> productTotalQuantity s \<and>
      list_all filled (fragments s))"

section \<open>OrderFragmentForm: the draft list\<close>

text \<open>\<open>x || d\<close> on an optional string and on an optional number.\<close>

definition or_str :: "string option \<Rightarrow> string \<Rightarrow> string" where
  "or_str x d = (case x of None \<Rightarrow> d | Some v \<Rightarrow> (if v = [] then d else v))"

definition or_num :: "int option \<Rightarrow> int \<Rightarrow> int" where
  "or_num x d = (case x of None \<Rightarrow> d | Some n \<Rightarrow> (if n = 0 then d else n))"

definition or_date :: "date option \<Rightarrow> date \<Rightarrow> date" where
  "or_date x d = (case x of None \<Rightarrow> d | Some v \<Rightarrow> v)"

text \<open>
  The default draft of the initial state and of the effect: \<open>now\<close> is the value of
  \<open>new Date()\<close>, \<open>rnd\<close> the string drawn from \<open>Math.random()\<close> (second variant only).
\<close>

definition defaultFragment_v1 :: "date \<Rightarrow> form \<Rightarrow> fragment" where
  "defaultFragment_v1 now s = no_fields
     \<lparr> f_fragmentNumber := Some 1,
       f_quantity := Some (max 1 \<lceil>(of_int (productTotalQuantity s) :: rat) / 4\<rceil>),
       f_scheduledDate := Some now,
       f_status := Some ''pending'',
       f_progress := Some 0,
       f_productId := Some (selectedProductId s) \<rparr>"

definition defaultFragment_v2 :: "date \<Rightarrow> (nat \<Rightarrow> string) \<Rightarrow> form \<Rightarrow> fragment" where
  "defaultFragment_v2 now rnd s =
     (defaultFragment_v1 now s) \<lparr> f_tempId := Some (''temp-'' @ rnd 0) \<rparr>"

text \<open>
  The body of \<open>useEffect\<close> (and of the \<open>useState\<close> initialiser): the drafts are rebuilt
  from the persisted fragments of the selected product, or are the single default draft.
\<close>

definition initFragments_v1 :: "date \<Rightarrow> form \<Rightarrow> fragment list" where
  "initFragments_v1 now s =
     (let newProductFragments =
            filter (\<lambda>f. f_productId f = Some (selectedProductId s)) (initialFragments s)
      in if length newProductFragments > 0
         then map (\<lambda>fragment. fragment
                    \<lparr> f_scheduledDate := Some (or_date (f_scheduledDate fragment) now) \<rparr>)
                newProductFragments
         else [defaultFragment_v1 now s])"

definition initFragments_v2 :: "date \<Rightarrow> (nat \<Rightarrow> string) \<Rightarrow> form \<Rightarrow> fragment list" where
  "initFragments_v2 now rnd s =
     (let newProductFragments =
            filter (\<lambda>f. f_productId f = Some (selectedProductId s)) (initialFragments s)
      in if length newProductFragments > 0
         then map (\<lambda>(i, fragment). fragment
                    \<lparr> f_tempId := Some (or_str (f_id fragment) (''temp-'' @ rnd i)),
                      f_scheduledDate := Some (or_date (f_scheduledDate fragment) now) \<rparr>)
                (enumerate 0 newProductFragments)
         else [defaultFragment_v2 now rnd s])"

text \<open>Mounting the form: \<open>products[0]?.id || ""\<close> is selected and the drafts are built.\<close>

definition openForm_v1 ::
  "date \<Rightarrow> string \<Rightarrow> OrderProduct list \<Rightarrow> fragment list \<Rightarrow> form" where
  "openForm_v1 now oid ps init =
     (let s = \<lparr> order_id = oid, products = ps, initialFragments = init,
                selectedProductId = (case ps of [] \<Rightarrow> [] | p # _ \<Rightarrow> p_id p),
                fragments = [] \<rparr>
      in s \<lparr> fragments := initFragments_v1 now s \<rparr>)"

text \<open>
  Choosing a product in the select box: \<open>setSelectedProductId\<close>, after which the effect
  runs because its dependency changed. Choosing the selected product again changes no
  dependency and runs nothing.
\<close>

definition selectProduct_v1 :: "date \<Rightarrow> string \<Rightarrow> form \<Rightarrow> form" where
  "selectProduct_v1 now pid s =
     (if pid = selectedProductId s then s
      else (let s' = s \<lparr> selectedProductId := pid \<rparr>
            in s' \<lparr> fragments := initFragments_v1 now s' \<rparr>))"

definition selectProduct_v2 :: "date \<Rightarrow> (nat \<Rightarrow> string) \<Rightarrow> string \<Rightarrow> form \<Rightarrow> form" where
  "selectProduct_v2 now rnd pid s =
     (if pid = selectedProductId s then s
      else (let s' = s \<lparr> selectedProductId := pid \<rparr>
            in s' \<lparr> fragments := initFragments_v2 now rnd s' \<rparr>))"

text \<open>\<open>fragments[fragments.length - 1]?.scheduledDate\<close>: absent on an empty list.\<close>

definition lastScheduledDate :: "fragment list \<Rightarrow> date option" where
  "lastScheduledDate fs = (if fs = [] then None else f_scheduledDate (last fs))"

definition addFragment_v1 :: "date \<Rightarrow> form \<Rightarrow> form" where
  "addFragment_v1 now s =
     (let nextDate = (case lastScheduledDate (fragments s) of
                        Some d \<Rightarrow> addDays d 1
                      | None \<Rightarrow> now)
      in s \<lparr> fragments := fragments s @
              [no_fields
                 \<lparr> f_fragmentNumber := Some (int (length (fragments s)) + 1),
                   f_quantity := Some 1,
                   f_scheduledDate := Some nextDate,
                   f_status := Some ''pending'',
                   f_progress := Some 0 \<rparr>] \<rparr>)"

definition addFragment_v2 :: "date \<Rightarrow> string \<Rightarrow> form \<Rightarrow> form" where
  "addFragment_v2 now rnd s =
     (let nextDate = (case lastScheduledDate (fragments s) of
                        Some d \<Rightarrow> addDays d 1
                      | None \<Rightarrow> now);
          today = startOfDay now;
          nextDate = (if nextDate < today then today else nextDate)
      in s \<lparr> fragments := fragments s @
              [no_fields
                 \<lparr> f_tempId := Some (''temp-'' @ rnd),
                   f_fragmentNumber := Some (int (length (fragments s)) + 1),
                   f_quantity := Some 1,
                   f_scheduledDate := Some nextDate,
                   f_status := Some ''pending'',
                   f_progress := Some 0,
                   f_productId := Some (selectedProductId s) \<rparr>] \<rparr>)"

text \<open>\<open>prev.filter((_, i) => i !== index)\<close>.\<close>

definition dropIndex :: "int \<Rightarrow> 'a list \<Rightarrow> 'a list" where
  "dropIndex index prev = map snd (filter (\<lambda>(i, _). int i \<noteq> index) (enumerate 0 prev))"

definition removeFragment :: "int \<Rightarrow> form \<Rightarrow> form" where
  "removeFragment index s =
     (if length (fragments s) > 1
      then s \<lparr> fragments := dropIndex index (fragments s) \<rparr>
      else s)"

text \<open>
  \<open>updateFragment(index, field, value)\<close> with the two fields the form writes: the
  quantity input (\<open>parseInt(..) || 0\<close>) and the calendar (\<open>updateFragmentDate\<close>).
\<close>

datatype field_value = Quantity int | ScheduledDate date

fun setField :: "field_value \<Rightarrow> fragment \<Rightarrow> fragment" where
  "setField (Quantity q) fragment = fragment \<lparr> f_quantity := Some q \<rparr>"
| "setField (ScheduledDate d) fragment = fragment \<lparr> f_scheduledDate := Some d \<rparr>"

definition updateFragment :: "int \<Rightarrow> field_value \<Rightarrow> form \<Rightarrow> form" where
  "updateFragment index fv s =
     s \<lparr> fragments :=
           map (\<lambda>(i, fragment). if int i = index then setField fv fragment else fragment)
             (enumerate 0 (fragments s)) \<rparr>"

section \<open>OrderFragmentForm: saving\<close>

text \<open>
  The toast descriptions. \<open>MustEqualAndFilled total T\<close> is the single message of the first
  variant (the fragmented total must equal the product total and every field must be
  filled); the other three are the messages of the second variant: at least one unit must
  be fragmented, the fragmented total may not exceed the product total, every required
  field must be filled.
\<close>

datatype message =
    MustEqualAndFilled int int
  | AtLeastOneUnit
  | TotalExceeds int int
  | RequiredFields

datatype effect = Toast message | OnSave "fragment list"

text \<open>
  One saved fragment. \<open>clock index\<close> is the current time (\<open>Date.now()\<close>, \<open>new Date()\<close>)
  while the draft at \<open>index\<close> is mapped.
\<close>

definition generatedId :: "(nat \<Rightarrow> date) \<Rightarrow> form \<Rightarrow> nat \<Rightarrow> fragment \<Rightarrow> string" where
  "generatedId clock s index fragment =
     order_id s @ ''-frag-'' @
     show_int (or_num (f_fragmentNumber fragment) (int index + 1)) @ ''-'' @
     show_int (clock index)"

definition savedFragment_v1 :: "(nat \<Rightarrow> date) \<Rightarrow> form \<Rightarrow> nat \<times> fragment \<Rightarrow> fragment" where
  "savedFragment_v1 clock s = (\<lambda>(index, fragment). no_fields
     \<lparr> f_id := Some (or_str (f_id fragment) (generatedId clock s index fragment)),
       f_orderId := Some (order_id s),
       f_productId := Some (selectedProductId s),
       f_fragmentNumber := Some (or_num (f_fragmentNumber fragment) (int index + 1)),
       f_quantity := Some (or0 (f_quantity fragment)),
       f_scheduledDate := Some (or_date (f_scheduledDate fragment) (clock index)),
       f_status := Some (or_str (f_status fragment) ''pending''),
       f_progress := Some (or0 (f_progress fragment)),
       f_value := Some (calculateFragmentValue s (or0 (f_quantity fragment))) \<rparr>)"

definition selectedProductText :: "form \<Rightarrow> (OrderProduct \<Rightarrow> string) \<Rightarrow> string" where
  "selectedProductText s field = (case selectedProduct s of None \<Rightarrow> [] | Some p \<Rightarrow> field p)"

definition savedFragment_v2 :: "(nat \<Rightarrow> date) \<Rightarrow> form \<Rightarrow> nat \<times> fragment \<Rightarrow> fragment" where
  "savedFragment_v2 clock s = (\<lambda>(index, fragment). no_fields
     \<lparr> f_id := Some (or_str (f_id fragment) (generatedId clock s index fragment)),
       f_orderId := Some (order_id s),
       f_productId := Some (selectedProductId s),
       f_productName := Some (selectedProductText s p_product_name),
       f_size := Some (selectedProductText s p_size),
       f_color := Some (selectedProductText s p_color),
       f_fragmentNumber := Some (or_num (f_fragmentNumber fragment) (int index + 1)),
       f_quantity := Some (or0 (f_quantity fragment)),
       f_scheduledDate := Some (or_date (f_scheduledDate fragment) (clock index)),
       f_status := Some (or_str (f_status fragment) ''pending''),
       f_progress := Some (or0 (f_progress fragment)),
       f_value := Some (calculateFragmentValue s (or0 (f_quantity fragment))),
       f_assignedOperator := f_assignedOperator fragment,
       f_startedAt := f_startedAt fragment,
       f_completedAt := f_completedAt fragment \<rparr>)"

definition otherFragments :: "form \<Rightarrow> fragment list" where
  "otherFragments s =
     filter (\<lambda>f. f_productId f \<noteq> Some (selectedProductId s)) (initialFragments s)"

text \<open>
  \<open>handleSave\<close> calls no state setter: the state it returns is the state it was given.
  Its effect is either the toast or the call of \<open>onSave\<close>.
\<close>

definition handleSave_v1 :: "(nat \<Rightarrow> date) \<Rightarrow> form \<Rightarrow> form \<times> effect" where
  "handleSave_v1 clock s =
     (if \<not> isValid_v1 s
      then (s, Toast (MustEqualAndFilled (getTotalFragmentQuantity s) (productTotalQuantity s)))
      else (let currentProductFragments =
                  map (savedFragment_v1 clock s) (enumerate 0 (fragments s));
                finalFragments = otherFragments s @ currentProductFragments
            in (s, OnSave finalFragments)))"

definition handleSave_v2 :: "(nat \<Rightarrow> date) \<Rightarrow> form \<Rightarrow> form \<times> effect" where
  "handleSave_v2 clock s =
     (if \<not> isValid_v2 s
      then (let totalFragmented = getTotalFragmentQuantity s;
                errorMsg =
                  (if totalFragmented = 0 then AtLeastOneUnit
                   else if totalFragmented > productTotalQuantity s
                   then TotalExceeds totalFragmented (productTotalQuantity s)
                   else RequiredFields)
            in (s, Toast errorMsg))
      else (let currentProductFragments =
                  map (savedFragment_v2 clock s) (enumerate 0 (fragments s));
                finalFragments = otherFragments s @ currentProductFragments
            in (s, OnSave finalFragments)))"

section \<open>OrderSplitDialog\<close>

text \<open>
  A computed JavaScript number that may leave the finite range: dividing by zero gives
  \<open>Infinity\<close>, \<open>-Infinity\<close> or \<open>NaN\<close>, and no multiplication brings such a value back.
\<close>

datatype number = Num rat | NonFinite

definition js_div :: "rat \<Rightarrow> rat \<Rightarrow> number" where
  "js_div a b = (if b = 0 then NonFinite else Num (a / b))"

definition js_mul :: "number \<Rightarrow> rat \<Rightarrow> number" where
  "js_mul a b = (case a of NonFinite \<Rightarrow> NonFinite | Num x \<Rightarrow> Num (x * b))"

text \<open>
  The fragments the dialog creates (snake-case field names in the source: \<open>id\<close>,
  \<open>order_id\<close>, \<open>product_id\<close>, \<open>product_name\<close>, \<open>size\<close>, \<open>color\<close>, \<open>fragment_number\<close>,
  \<open>quantity\<close>, \<open>scheduled_date\<close>, \<open>status\<close>, \<open>progress\<close>, \<open>value\<close>, \<open>assigned_operator\<close>,
  \<open>started_at\<close>, \<open>completed_at\<close>).
\<close>

record split_fragment =
  s_id :: string
  s_order_id :: string
  s_product_id :: string
  s_product_name :: string
  s_size :: string
  s_color :: string
  s_fragment_number :: int
  s_quantity :: int
  s_scheduled_date :: date
  s_status :: string
  s_progress :: int
  s_value :: number
  s_assigned_operator :: "string option"
  s_started_at :: "date option"
  s_completed_at :: "date option"

text \<open>
  Modelled from the spec: the declaration of \<open>Order\<close> (module \<open>@/hooks/useFirebase\<close>) is not
  among the sources. The record has the fields the dialog reads: \<open>id\<close>, \<open>products\<close> and
  \<open>fragments\<close>; an absent list (\<open>order.products?.\<close>, \<open>order.fragments?.\<close>) behaves as the
  empty list in every expression of the dialog.
\<close>

record Order =
  o_id :: string
  o_products :: "OrderProduct list"
  o_fragments :: "split_fragment list"

text \<open>
  The state of the dialog. \<open>quantities\<close> is a \<open>Record<string, number>\<close>, kept as an
  association list and read through \<open>map_of\<close> only.
\<close>

record dialog =
  quantities :: "(string \<times> int) list"
  loading :: bool

text \<open>\<open>quantities[id] || 0\<close> and \<open>Object.values(quantities)\<close>.\<close>

definition quantityOf :: "(string \<times> int) list \<Rightarrow> string \<Rightarrow> int" where
  "quantityOf qs k = or0 (map_of qs k)"

definition objectValues :: "(string \<times> int) list \<Rightarrow> int list" where
  "objectValues qs = map (quantityOf qs) (remdups (map fst qs))"

text \<open>\<open>handleQuantityChange\<close>; \<open>parsed\<close> is the result of \<open>parseInt\<close>, \<open>None\<close> for \<open>NaN\<close>.\<close>

definition handleQuantityChange :: "string \<Rightarrow> int option \<Rightarrow> dialog \<Rightarrow> dialog" where
  "handleQuantityChange productId parsed d =
     (let num = or0 parsed
      in d \<lparr> quantities := AList.update productId (max 0 num) (quantities d) \<rparr>)"

text \<open>
  The alerts: a quantity must be given for at least one product; the quantity may not be
  above the product's quantity (first version of the dialog); the quantity may not be above
  the quantity still available for fragmenting (second version); the generic request to
  try again.
\<close>

datatype alert = SpecifyQuantity | QuantityTooLarge | AboveAvailable | TryAgain

datatype split_effect =
    Alert alert
  | OnSplit "split_fragment list"
  | OnOpenChange bool
  | ConsoleError

definition hasQuantity :: "dialog \<Rightarrow> bool" where
  "hasQuantity d = list_ex (\<lambda>q. q > 0) (objectValues (quantities d))"

definition hasExcess :: "Order \<Rightarrow> dialog \<Rightarrow> bool" where
  "hasExcess order d =
     list_ex (\<lambda>product. quantityOf (quantities d) (p_id product) > p_quantity product)
       (o_products order)"

definition splitFragment ::
  "(nat \<Rightarrow> date) \<Rightarrow> Order \<Rightarrow> dialog \<Rightarrow> nat \<times> OrderProduct \<Rightarrow> split_fragment" where
  "splitFragment clock order d = (\<lambda>(index, product).
     \<lparr> s_id = o_id order @ ''-frag-'' @ show_int (clock index) @ ''-'' @ show_int (int index),
       s_order_id = o_id order,
       s_product_id = or_str (p_product_id product) (p_id product),
       s_product_name = p_product_name product,
       s_size = p_size product,
       s_color = p_color product,
       s_fragment_number = int (length (o_fragments order)) + int index + 1,
       s_quantity = quantityOf (quantities d) (p_id product),
       s_scheduled_date = clock index,
       s_status = ''pending'',
       s_progress = 0,
       s_value = js_mul (js_div (p_total_price product) (of_int (p_quantity product)))
                   (of_int (quantityOf (quantities d) (p_id product))),
       s_assigned_operator = None,
       s_started_at = None,
       s_completed_at = None \<rparr>)"

definition splitFragments :: "(nat \<Rightarrow> date) \<Rightarrow> Order \<Rightarrow> dialog \<Rightarrow> split_fragment list" where
  "splitFragments clock order d =
     map (splitFragment clock order d)
       (enumerate 0
          (filter (\<lambda>product. quantityOf (quantities d) (p_id product) > 0) (o_products order)))"

text \<open>
  \<open>handleSplit\<close>. \<open>resolved\<close> tells whether the promise of \<open>onSplit\<close> is fulfilled; a
  rejection is caught, logged and answered with the generic alert. The \<open>finally\<close> block
  resets \<open>loading\<close> on every path.
\<close>

definition handleSplit ::
  "(nat \<Rightarrow> date) \<Rightarrow> bool \<Rightarrow> Order \<Rightarrow> dialog \<Rightarrow> dialog \<times> split_effect list" where
  "handleSplit clock resolved order d =
     (let d1 = d \<lparr> loading := True \<rparr>
      in if \<not> hasQuantity d1 then (d1 \<lparr> loading := False \<rparr>, [Alert SpecifyQuantity])
         else if hasExcess order d1 then (d1 \<lparr> loading := False \<rparr>, [Alert QuantityTooLarge])
         else (let fragments = splitFragments clock order d1
               in if resolved
                  then (d1 \<lparr> quantities := [], loading := False \<rparr>,
                        [OnSplit fragments, OnOpenChange False])
                  else (d1 \<lparr> loading := False \<rparr>,
                        [OnSplit fragments, ConsoleError, Alert TryAgain])))"

section \<open>OrderSplitDialog, second version\<close>

text \<open>
  The second version of the dialog (the unnamed source) measures every quantity against
  what is still available of the product. \<open>getAvailableQuantity\<close> looks the product up by
  \<open>id\<close> or by \<open>product_id\<close>, takes the first line that matches, and subtracts the quantities
  of the order's fragments that carry one of its identifiers.
\<close>

definition getAvailableQuantity :: "Order \<Rightarrow> string \<Rightarrow> int" where
  "getAvailableQuantity order productId =
     (case find (\<lambda>p. p_id p = productId \<or> p_product_id p = Some productId) (o_products order) of
        None \<Rightarrow> 0
      | Some product \<Rightarrow>
          (let totalQuantity = p_quantity product;
               actualProductId = or_str (p_product_id product) (p_id product);
               alreadyFragmented =
                 foldl (\<lambda>sum f. sum +
                          (if s_product_id f = actualProductId \<or> s_product_id f = productId \<or>
                              s_product_id f = p_id product
                           then s_quantity f else 0))
                   0 (o_fragments order)
           in totalQuantity - alreadyFragmented))"

definition handleQuantityChange_v2 :: "Order \<Rightarrow> string \<Rightarrow> int option \<Rightarrow> dialog \<Rightarrow> dialog" where
  "handleQuantityChange_v2 order productId parsed d =
     (let availableQty = getAvailableQuantity order productId;
          num = min availableQty (max 0 (or0 parsed))
      in d \<lparr> quantities := AList.update productId num (quantities d) \<rparr>)"

definition incrementQuantity :: "Order \<Rightarrow> string \<Rightarrow> dialog \<Rightarrow> dialog" where
  "incrementQuantity order productId d =
     (let availableQty = getAvailableQuantity order productId;
          current = quantityOf (quantities d) productId
      in if current < availableQty
         then d \<lparr> quantities := AList.update productId (current + 1) (quantities d) \<rparr>
         else d)"

definition decrementQuantity :: "string \<Rightarrow> dialog \<Rightarrow> dialog" where
  "decrementQuantity productId d =
     (let current = quantityOf (quantities d) productId
      in if current > 0
         then d \<lparr> quantities := AList.update productId (current - 1) (quantities d) \<rparr>
         else d)"

definition hasExcess_v2 :: "Order \<Rightarrow> dialog \<Rightarrow> bool" where
  "hasExcess_v2 order d =
     list_ex (\<lambda>product. quantityOf (quantities d) (p_id product) >
                         getAvailableQuantity order (p_id product))
       (o_products order)"

text \<open>
  \<open>handleSplit\<close> of the second version: the excess check is the one against the available
  quantity, the fragments are built by the same expression as in the first version.
\<close>

definition handleSplit_v2 ::
  "(nat \<Rightarrow> date) \<Rightarrow> bool \<Rightarrow> Order \<Rightarrow> dialog \<Rightarrow> dialog \<times> split_effect list" where
  "handleSplit_v2 clock resolved order d =
     (let d1 = d \<lparr> loading := True \<rparr>
      in if \<not> hasQuantity d1 then (d1 \<lparr> loading := False \<rparr>, [Alert SpecifyQuantity])
         else if hasExcess_v2 order d1 then (d1 \<lparr> loading := False \<rparr>, [Alert AboveAvailable])
         else (let fragments = splitFragments clock order d1
               in if resolved
                  then (d1 \<lparr> quantities := [], loading := False \<rparr>,
                        [OnSplit fragments, OnOpenChange False])
                  else (d1 \<lparr> loading := False \<rparr>,
                        [OnSplit fragments, ConsoleError, Alert TryAgain])))"

section \<open>Sessions and observations\<close>

text \<open>The user's actions on the first variant of the form, and a session of them.\<close>

datatype event =
    AddFragment date
  | RemoveFragment int
  | UpdateFragment int field_value
  | SelectProduct date string

fun step_v1 :: "form \<Rightarrow> event \<Rightarrow> form" where
  "step_v1 s (AddFragment now) = addFragment_v1 now s"
| "step_v1 s (RemoveFragment index) = removeFragment index s"
| "step_v1 s (UpdateFragment index fv) = updateFragment index fv s"
| "step_v1 s (SelectProduct now pid) = selectProduct_v1 now pid s"

definition run_v1 :: "event list \<Rightarrow> form \<Rightarrow> form" where
  "run_v1 evs s = foldl step_v1 s evs"

text \<open>A clock that does not advance while the drafts are mapped (the same millisecond).\<close>

definition frozen_clock :: "date \<Rightarrow> nat \<Rightarrow> date" where
  "frozen_clock t index = t"

text \<open>What the save callback receives, read off an effect.\<close>

definition savedFragments :: "effect \<Rightarrow> fragment list" where
  "savedFragments e = (case e of OnSave fs \<Rightarrow> fs | Toast _ \<Rightarrow> [])"

definition savedIds :: "effect \<Rightarrow> string option list" where
  "savedIds e = map f_id (savedFragments e)"

definition savedProductIds :: "effect \<Rightarrow> string option list" where
  "savedProductIds e = map f_productId (savedFragments e)"

text \<open>The values of the fragments that \<open>onSplit\<close> receives, read off the effects.\<close>

fun splitValues :: "split_effect list \<Rightarrow> number list" where
  "splitValues [] = []"
| "splitValues (OnSplit fs # es) = map s_value fs @ splitValues es"
| "splitValues (_ # es) = splitValues es"

section \<open>Example data\<close>

definition sofa :: OrderProduct where
  "sofa = \<lparr> p_id = ''p1'', p_product_id = None, p_product_name = ''Sofa'', p_size = ''M'',
            p_color = ''blue'', p_quantity = 100, p_total_price = 500 \<rparr>"

definition chair :: OrderProduct where
  "chair = \<lparr> p_id = ''p2'', p_product_id = Some ''c7'', p_product_name = ''Chair'',
             p_size = ''S'', p_color = ''red'', p_quantity = 10, p_total_price = 80 \<rparr>"

definition stool :: OrderProduct where
  "stool = \<lparr> p_id = ''p3'', p_product_id = None, p_product_name = ''Stool'', p_size = ''S'',
             p_color = ''oak'', p_quantity = 3, p_total_price = 90 \<rparr>"

definition draft :: "int \<Rightarrow> int \<Rightarrow> date \<Rightarrow> fragment" where
  "draft n q d = no_fields
     \<lparr> f_fragmentNumber := Some n, f_quantity := Some q, f_scheduledDate := Some d,
       f_status := Some ''pending'', f_progress := Some 0 \<rparr>"

text \<open>The sofa (100 units, 500.00) split into 40 and 60 units.\<close>

definition sofa_form :: form where
  "sofa_form = \<lparr> order_id = ''o1'', products = [sofa, chair], initialFragments = [],
                 selectedProductId = ''p1'',
                 fragments = [draft 1 40 0, draft 2 60 day_ms] \<rparr>"

text \<open>The sofa with a single draft of 40 units: a partial split.\<close>

definition sofa_partial_form :: form where
  "sofa_partial_form = sofa_form \<lparr> fragments := [draft 1 40 0] \<rparr>"

text \<open>A line item carrying a credit: 10 units with a negative total price.\<close>

definition credit_line :: OrderProduct where
  "credit_line = \<lparr> p_id = ''p4'', p_product_id = None, p_product_name = ''Credit'',
                   p_size = ''-'', p_color = ''-'', p_quantity = 10, p_total_price = - 10 \<rparr>"

definition credit_form :: form where
  "credit_form = \<lparr> order_id = ''o1'', products = [credit_line], initialFragments = [],
                   selectedProductId = ''p4'', fragments = [draft 1 5 0] \<rparr>"

text \<open>A line item of zero units that still has a price, and a form state with no draft.\<close>

definition sample_line :: OrderProduct where
  "sample_line = \<lparr> p_id = ''p5'', p_product_id = None, p_product_name = ''Sample'',
                   p_size = ''-'', p_color = ''-'', p_quantity = 0, p_total_price = 5 \<rparr>"

definition no_draft_form :: form where
  "no_draft_form = \<lparr> order_id = ''o1'', products = [sample_line], initialFragments = [],
                     selectedProductId = ''p5'', fragments = [] \<rparr>"

text \<open>The chair (10 units) with a single dated draft of 5 units: a shortfall.\<close>

definition chair_short_form :: form where
  "chair_short_form = \<lparr> order_id = ''o1'', products = [sofa, chair], initialFragments = [],
                        selectedProductId = ''p2'', fragments = [draft 1 5 0] \<rparr>"

text \<open>The chair with a single draft of 15 units, and with a draft that has no date.\<close>

definition chair_excess_form :: form where
  "chair_excess_form = chair_short_form \<lparr> fragments := [draft 1 15 0] \<rparr>"


text \<open>The order of the dialog, with 40 sofas, and with 15 chairs, entered.\<close>

definition sofa_order :: Order where
  "sofa_order = \<lparr> o_id = ''o1'', o_products = [sofa, chair], o_fragments = [] \<rparr>"

definition sofa_dialog :: dialog where
  "sofa_dialog = \<lparr> quantities = [(''p1'', 40)], loading = False \<rparr>"

definition chair_excess_dialog :: dialog where
  "chair_excess_dialog = \<lparr> quantities = [(''p2'', 15)], loading = False \<rparr>"

text \<open>
  A session on the first variant: the form opens on the sofa with no persisted fragment,
  the user sets the draft to all 100 units, switches to the chair and sets its draft to
  all 10 units.
\<close>

definition sofa_session :: form where
  "sofa_session =
     run_v1 [UpdateFragment 0 (Quantity 100)] (openForm_v1 1000 ''o1'' [sofa, chair] [])"

definition switch_session :: form where
  "switch_session =
     run_v1 [SelectProduct 2000 ''p2'', UpdateFragment 0 (Quantity 10)] sofa_session"

text \<open>
  A session on the stool (3 units): two drafts are added, the first draft is removed and
  another draft is added.
\<close>

definition renumbered_session :: form where
  "renumbered_session =
     run_v1 [AddFragment 1000, AddFragment 1000, RemoveFragment 0, AddFragment 1000]
       (openForm_v1 1000 ''o7'' [stool] [])"

text \<open>
  The sofa with one persisted fragment scheduled on day 100, opened on day 110 at one
  o'clock.
\<close>

definition stale_form :: form where
  "stale_form =
     openForm_v1 (110 * day_ms + 3600000) ''o1'' [sofa]
       [(draft 1 100 (100 * day_ms)) \<lparr> f_id := Some ''f1'', f_productId := Some ''p1'' \<rparr>]"

text \<open>
  The sofa form of above over three persisted fragments: two of the chair and, between
  them, one of the sofa.
\<close>

definition persisted :: "string \<Rightarrow> string \<Rightarrow> int \<Rightarrow> int \<Rightarrow> date \<Rightarrow> fragment" where
  "persisted fid pid n q d =
     (draft n q d) \<lparr> f_id := Some fid, f_orderId := Some ''o1'', f_productId := Some pid \<rparr>"

definition merge_form :: form where
  "merge_form = sofa_form
     \<lparr> initialFragments :=
         [persisted ''a'' ''p2'' 1 4 0, persisted ''b'' ''p1'' 1 100 0,
          persisted ''c'' ''p2'' 2 6 day_ms] \<rparr>"

text \<open>
  An order of two lines: a bench of 5 units whose \<open>product_id\<close> is \<open>x\<close>, and a plank of zero
  units whose \<open>id\<close> is \<open>x\<close>. In the second version of the dialog the user types 2 into the
  input of the plank.
\<close>

definition bench :: OrderProduct where
  "bench = \<lparr> p_id = ''b'', p_product_id = Some ''x'', p_product_name = ''Bench'',
             p_size = ''L'', p_color = ''oak'', p_quantity = 5, p_total_price = 50 \<rparr>"

definition plank :: OrderProduct where
  "plank = \<lparr> p_id = ''x'', p_product_id = None, p_product_name = ''Plank'',
             p_size = ''L'', p_color = ''oak'', p_quantity = 0, p_total_price = 7 \<rparr>"

definition collision_order :: Order where
  "collision_order = \<lparr> o_id = ''o9'', o_products = [bench, plank], o_fragments = [] \<rparr>"

definition collision_dialog :: dialog where
  "collision_dialog =
     handleQuantityChange_v2 collision_order ''x'' (Some 2) \<lparr> quantities = [], loading = False \<rparr>"

section \<open>Sums and validity\<close>

lemma foldl_add_sum_list:
  fixes a :: "'b::monoid_add"
  shows "foldl (\<lambda>sum x. sum + g x) a xs = a + sum_list (map g xs)"
  by (induction xs arbitrary: a) (simp_all add: add.assoc)

lemma getTotalFragmentQuantity_sum:
  "getTotalFragmentQuantity s = sum_list (map (\<lambda>f. or0 (f_quantity f)) (fragments s))"
  by (simp add: getTotalFragmentQuantity_def foldl_add_sum_list)

lemma getTotalFragmentValue_sum:
  "getTotalFragmentValue s =
     sum_list (map (\<lambda>f. calculateFragmentValue s (or0 (f_quantity f))) (fragments s))"
  by (simp add: getTotalFragmentValue_def foldl_add_sum_list)

lemma filled_iff:
  "filled f \<longleftrightarrow> (\<exists>q. f_quantity f = Some q \<and> q > 0) \<and> (\<exists>d. f_scheduledDate f = Some d)"
  by (auto simp: filled_def truthy_num_def or0_def split: option.splits)

lemmas example_defs =
  sofa_form_def sofa_partial_form_def credit_form_def no_draft_form_def
  sofa_def chair_def stool_def credit_line_def sample_line_def draft_def no_fields_def
  productTotalQuantity_def productTotalValue_def selectedProduct_def or0_def day_ms_def

lemmas validity_defs =
  isValid_v1_def isValid_v2_def getTotalFragmentQuantity_def filled_def truthy_num_def

text \<open>
  C2. Under the strict policy (first variant of the form) \<open>isValid\<close> holds exactly when
  the quantities of the drafts add up to the total quantity of the selected product and
  every draft has a quantity above zero and a scheduled date. A draft without a quantity
  counts as zero in the sum, as \<open>fragment.quantity || 0\<close> does.
\<close>

theorem strict_valid_iff:
  "isValid_v1 s \<longleftrightarrow>
     sum_list (map (\<lambda>f. or0 (f_quantity f)) (fragments s)) = productTotalQuantity s \<and>
     (\<forall>f \<in> set (fragments s).
        (\<exists>q. f_quantity f = Some q \<and> q > 0) \<and> (\<exists>d. f_scheduledDate f = Some d))"
  by (simp add: isValid_v1_def getTotalFragmentQuantity_sum list_all_iff filled_iff)

theorem strict_valid_iff_witness:
  "isValid_v1 sofa_form \<and> \<not> isValid_v1 sofa_partial_form"
  unfolding strict_valid_iff by (simp add: example_defs)

text \<open>
  C3. Under the partial-allowed policy (second variant of the form) \<open>isValid\<close> holds
  exactly when the quantities of the drafts add up to more than zero and to at most the
  total quantity of the selected product, and every draft has a quantity above zero and a
  scheduled date.
\<close>

theorem partial_valid_iff:
  "isValid_v2 s \<longleftrightarrow>
     0 < sum_list (map (\<lambda>f. or0 (f_quantity f)) (fragments s)) \<and>
     sum_list (map (\<lambda>f. or0 (f_quantity f)) (fragments s)) \<le> productTotalQuantity s \<and>
     (\<forall>f \<in> set (fragments s).
        (\<exists>q. f_quantity f = Some q \<and> q > 0) \<and> (\<exists>d. f_scheduledDate f = Some d))"
  by (simp add: isValid_v2_def getTotalFragmentQuantity_sum list_all_iff filled_iff)

theorem partial_valid_iff_witness:
  "isValid_v2 sofa_form \<and> isValid_v2 sofa_partial_form \<and> \<not> isValid_v2 no_draft_form"
  unfolding partial_valid_iff by (simp add: example_defs)

section \<open>Additivity of the fragment value\<close>

lemma calculateFragmentValue_sum_list:
  "sum_list (map (calculateFragmentValue s) qs) = calculateFragmentValue s (sum_list qs)"
  by (induction qs) (simp_all add: calculateFragmentValue_def add_divide_distrib distrib_right)

lemma value_additive:
  "getTotalFragmentValue s = calculateFragmentValue s (getTotalFragmentQuantity s)"
proof -
  have "getTotalFragmentValue s =
          sum_list (map (calculateFragmentValue s) (map (\<lambda>f. or0 (f_quantity f)) (fragments s)))"
    by (simp add: getTotalFragmentValue_sum comp_def)
  then show ?thesis
    by (simp only: calculateFragmentValue_sum_list getTotalFragmentQuantity_sum)
qed

lemma filled_total_pos:
  assumes "list_all filled fs" and "fs \<noteq> []"
  shows "0 < sum_list (map (\<lambda>f. or0 (f_quantity f)) fs)"
  using assms
proof (induction fs)
  case Nil
  then show ?case by simp
next
  case (Cons f fs)
  have pos: "0 < or0 (f_quantity f)" using Cons.prems(1) by (simp add: filled_def)
  show ?case
  proof (cases "fs = []")
    case True
    then show ?thesis using pos by simp
  next
    case False
    then have "0 < sum_list (map (\<lambda>f. or0 (f_quantity f)) fs)"
      using Cons by simp
    then show ?thesis using pos by simp
  qed
qed

lemma strict_total_value:
  assumes "isValid_v1 s" and "fragments s \<noteq> []"
  shows "getTotalFragmentValue s = productTotalValue s"
proof -
  have eq: "getTotalFragmentQuantity s = productTotalQuantity s"
    using assms(1) by (simp add: isValid_v1_def)
  have "0 < getTotalFragmentQuantity s"
    using assms filled_total_pos [of "fragments s"]
    by (simp add: isValid_v1_def getTotalFragmentQuantity_sum)
  then have "productTotalQuantity s \<noteq> 0" using eq by simp
  then show ?thesis
    by (simp add: value_additive eq calculateFragmentValue_def)
qed

lemma partial_total_value:
  assumes "isValid_v2 s" and "0 \<le> productTotalValue s"
  shows "getTotalFragmentValue s \<le> productTotalValue s"
proof -
  let ?q = "getTotalFragmentQuantity s" and ?T = "productTotalQuantity s"
  have q: "0 < ?q" "?q \<le> ?T" using assms(1) by (simp_all add: isValid_v2_def)
  then have T: "0 < ?T" by simp
  have "(of_int ?q :: rat) / of_int ?T \<le> 1" using q T by simp
  then have "(of_int ?q / of_int ?T) * productTotalValue s \<le> 1 * productTotalValue s"
    using assms(2) by (rule mult_right_mono)
  then show ?thesis using T by (simp add: value_additive calculateFragmentValue_def)
qed

lemma sofa_form_valid: "isValid_v1 sofa_form"
  by (simp add: validity_defs example_defs)

lemma sofa_partial_form_valid: "isValid_v2 sofa_partial_form"
  by (simp add: validity_defs example_defs)

text \<open>
  C10, as stated, fails in two places. With a negative total price the partial policy
  accepts drafts whose total value lies above the product's total value (5 of 10 units of a
  line priced -10 are worth -5); and the strict policy accepts the empty draft list of a
  product of zero units, whose fragments are worth 0 whatever the product's price is.
\<close>

theorem value_bounded_counterexample:
  "isValid_v2 credit_form \<and> productTotalValue credit_form < getTotalFragmentValue credit_form \<and>
   isValid_v1 no_draft_form \<and> getTotalFragmentValue no_draft_form \<noteq> productTotalValue no_draft_form"
  by (simp add: validity_defs getTotalFragmentValue_def calculateFragmentValue_def example_defs)

text \<open>
  C10, amended. The value is additive in the quantity for every draft list: the sum of
  \<open>calculateFragmentValue\<close> over the drafts' quantities is \<open>calculateFragmentValue\<close> of the
  sum of the quantities (exact rational arithmetic). Hence a non-empty draft list that is
  valid under the strict policy is worth exactly the product's total value, and a draft
  list that is valid under the partial policy is worth at most the product's total value
  when that total value is not negative.
\<close>

theorem value_additive_and_bounded:
  "getTotalFragmentValue s = calculateFragmentValue s (getTotalFragmentQuantity s) \<and>
   (isValid_v1 s \<and> fragments s \<noteq> [] \<longrightarrow> getTotalFragmentValue s = productTotalValue s) \<and>
   (isValid_v2 s \<and> 0 \<le> productTotalValue s \<longrightarrow>
      getTotalFragmentValue s \<le> productTotalValue s)"
  using value_additive strict_total_value partial_total_value by blast

theorem value_additive_and_bounded_witness:
  "isValid_v1 sofa_form \<and> fragments sofa_form \<noteq> [] \<and> getTotalFragmentValue sofa_form = 500 \<and>
   isValid_v2 sofa_partial_form \<and> 0 \<le> productTotalValue sofa_partial_form \<and>
   getTotalFragmentValue sofa_partial_form \<le> 500"
proof -
  have a: "fragments sofa_form \<noteq> []" by (simp add: sofa_form_def)
  have b: "productTotalValue sofa_form = 500" "productTotalValue sofa_partial_form = 500"
    by (simp_all add: example_defs)
  show ?thesis
    using value_additive_and_bounded [of sofa_form]
      value_additive_and_bounded [of sofa_partial_form]
      sofa_form_valid sofa_partial_form_valid a b
    by simp
qed

section \<open>Removing drafts\<close>

lemma filter_enumerate_above:
  "i < int n \<Longrightarrow> filter (\<lambda>(j, _). int j \<noteq> i) (enumerate n xs) = enumerate n xs"
  by (induction xs arbitrary: n) auto

lemma dropIndex_from:
  "map snd (filter (\<lambda>(j, _). int j \<noteq> i) (enumerate n xs)) =
     (if int n \<le> i \<and> nat i - n < length xs
      then take (nat i - n) xs @ drop (Suc (nat i - n)) xs else xs)"
proof (induction xs arbitrary: n)
  case Nil
  then show ?case by simp
next
  case (Cons x xs)
  show ?case
  proof (cases "int n = i")
    case True
    then have "i < int (Suc n)" by simp
    then show ?thesis using True by (simp add: filter_enumerate_above)
  next
    case False
    show ?thesis
    proof (cases "int n < i")
      case True
      then have "nat i - n = Suc (nat i - Suc n)" by linarith
      then show ?thesis using True False Cons.IH [of "Suc n"] by auto
    next
      case False
      then show ?thesis using \<open>int n \<noteq> i\<close> Cons.IH [of "Suc n"] by auto
    qed
  qed
qed

text \<open>The filter on positions removes the element at \<open>index\<close>, or nothing.\<close>

lemma dropIndex_eq:
  "dropIndex i xs =
     (if 0 \<le> i \<and> nat i < length xs then take (nat i) xs @ drop (Suc (nat i)) xs else xs)"
  using dropIndex_from [of i 0 xs] by (simp add: dropIndex_def)

lemma length_dropIndex: "length xs \<le> Suc (length (dropIndex i xs))"
  by (auto simp: dropIndex_eq)

lemma removeFragment_nonempty: "fragments s \<noteq> [] \<Longrightarrow> fragments (removeFragment i s) \<noteq> []"
  using length_dropIndex [of "fragments s" i]
  by (cases "fragments s") (auto simp: removeFragment_def)

lemma removeFragments_nonempty:
  "fragments s \<noteq> [] \<Longrightarrow> fragments (foldl (\<lambda>s i. removeFragment i s) s indices) \<noteq> []"
  by (induction indices arbitrary: s) (simp_all add: removeFragment_nonempty)

text \<open>
  C5. On a draft list of length 1, \<open>removeFragment\<close> changes nothing, whatever the index;
  and from a non-empty draft list no sequence of \<open>removeFragment\<close> calls leads to fewer
  than one draft.
\<close>

theorem removeFragment_keeps_one:
  "(length (fragments s) = 1 \<longrightarrow> removeFragment index s = s) \<and>
   (fragments s \<noteq> [] \<longrightarrow>
      1 \<le> length (fragments (foldl (\<lambda>s i. removeFragment i s) s indices)))"
proof -
  have "fragments s \<noteq> [] \<longrightarrow>
          fragments (foldl (\<lambda>s i. removeFragment i s) s indices) \<noteq> []"
    using removeFragments_nonempty by blast
  then show ?thesis
    by (auto simp: removeFragment_def Suc_le_eq)
qed

theorem removeFragment_keeps_one_witness:
  "length (fragments sofa_partial_form) = 1 \<and>
   removeFragment 0 sofa_partial_form = sofa_partial_form \<and>
   fragments sofa_form \<noteq> [] \<and>
   length (fragments (foldl (\<lambda>s i. removeFragment i s) sofa_form [0, 0, 0, 7])) = 1"
proof -
  have a: "length (fragments sofa_partial_form) = 1" "fragments sofa_form \<noteq> []"
    by (simp_all add: example_defs)
  have b: "length (fragments (foldl (\<lambda>s i. removeFragment i s) sofa_form [0, 0, 0, 7])) \<le> 1"
    by (simp add: removeFragment_def dropIndex_def example_defs)
  show ?thesis
    using removeFragment_keeps_one [of sofa_partial_form 0 "[]"]
      removeFragment_keeps_one [of sofa_form 0 "[0, 0, 0, 7]"] a b
    by simp
qed

section \<open>The value of a fragment\<close>

lemma list_all2_map_enumerate:
  "(\<And>i x. x \<in> set xs \<Longrightarrow> P x (f (i, x))) \<Longrightarrow> list_all2 P xs (map f (enumerate n xs))"
  by (induction xs arbitrary: n) auto

lemma no_excess_bound:
  assumes "\<not> hasExcess order d" and "product \<in> set (o_products order)"
  shows "quantityOf (quantities d) (p_id product) \<le> p_quantity product"
  using assms by (auto simp: hasExcess_def list_ex_iff)

text \<open>
  After the excess check every product that passes the filter has a quantity of at least
  one unit, so the division of the dialog never meets zero.
\<close>

lemma splitFragments_values:
  assumes "\<not> hasExcess order d"
  shows "list_all2
     (\<lambda>product f.
        s_quantity f = quantityOf (quantities d) (p_id product) \<and>
        p_quantity product \<noteq> 0 \<and>
        s_value f = Num (of_int (s_quantity f) / of_int (p_quantity product) * p_total_price product))
     (filter (\<lambda>product. quantityOf (quantities d) (p_id product) > 0) (o_products order))
     (splitFragments clock order d)"
  unfolding splitFragments_def
proof (rule list_all2_map_enumerate)
  fix i product
  assume "product \<in> set (filter (\<lambda>product. quantityOf (quantities d) (p_id product) > 0) (o_products order))"
  then have "0 < quantityOf (quantities d) (p_id product)" "product \<in> set (o_products order)"
    by simp_all
  with no_excess_bound [OF assms] have "0 < p_quantity product" by fastforce
  then show "s_quantity (splitFragment clock order d (i, product)) =
         quantityOf (quantities d) (p_id product) \<and>
        p_quantity product \<noteq> 0 \<and>
        s_value (splitFragment clock order d (i, product)) =
          Num (of_int (s_quantity (splitFragment clock order d (i, product))) /
               of_int (p_quantity product) * p_total_price product)"
    by (simp add: splitFragment_def js_div_def js_mul_def)
qed

lemma hasExcess_loading [simp]: "hasExcess order (d \<lparr> loading := b \<rparr>) = hasExcess order d"
  by (simp add: hasExcess_def)

lemma hasQuantity_loading [simp]: "hasQuantity (d \<lparr> loading := b \<rparr>) = hasQuantity d"
  by (simp add: hasQuantity_def)

lemma splitFragments_loading [simp]:
  "splitFragments clock order (d \<lparr> loading := b \<rparr>) = splitFragments clock order d"
  by (simp add: splitFragments_def splitFragment_def)

lemma handleSplit_OnSplit:
  assumes "OnSplit fs \<in> set (snd (handleSplit clock resolved order d))"
  shows "\<not> hasExcess order d \<and> fs = splitFragments clock order d"
  using assms by (auto simp: handleSplit_def Let_def split: if_splits)

lemmas dialog_defs =
  handleSplit_def hasQuantity_def hasExcess_def objectValues_def quantityOf_def
  splitFragments_def splitFragment_def js_div_def js_mul_def frozen_clock_def
  sofa_order_def sofa_dialog_def chair_excess_dialog_def or_str_def show_int_def

text \<open>
  In the form and in the first version of the dialog the value of a fragment is
  \<open>q / T * V\<close>, and \<open>0\<close> when \<open>T = 0\<close>: for \<open>calculateFragmentValue\<close>, with \<open>T\<close> and \<open>V\<close> the
  total quantity and total price of the selected product, and for every fragment the
  first version of the dialog hands to \<open>onSplit\<close>, with \<open>T\<close> and \<open>V\<close> those of the fragment's
  product. That version creates no fragment for a product with \<open>T = 0\<close>.
\<close>

theorem fragment_value_proportional:
  "calculateFragmentValue s q =
     (if productTotalQuantity s = 0 then 0
      else of_int q / of_int (productTotalQuantity s) * productTotalValue s) \<and>
   (OnSplit fs \<in> set (snd (handleSplit clock resolved order d)) \<longrightarrow>
      list_all2
        (\<lambda>product f.
           s_quantity f = quantityOf (quantities d) (p_id product) \<and>
           p_quantity product \<noteq> 0 \<and>
           s_value f =
             Num (of_int (s_quantity f) / of_int (p_quantity product) * p_total_price product))
        (filter (\<lambda>product. quantityOf (quantities d) (p_id product) > 0) (o_products order))
        fs)"
  using handleSplit_OnSplit [of fs clock resolved order d]
    splitFragments_values [of order d clock]
  by (auto simp: calculateFragmentValue_def)

theorem fragment_value_proportional_witness:
  "calculateFragmentValue sofa_form 40 = 200 \<and>
   productTotalQuantity no_draft_form = 0 \<and> calculateFragmentValue no_draft_form 3 = 0 \<and>
   OnSplit (splitFragments (frozen_clock 1000) sofa_order sofa_dialog)
     \<in> set (snd (handleSplit (frozen_clock 1000) True sofa_order sofa_dialog)) \<and>
   map s_value (splitFragments (frozen_clock 1000) sofa_order sofa_dialog) = [Num 200] \<and>
   list_all2
     (\<lambda>product f.
        s_quantity f = quantityOf (quantities sofa_dialog) (p_id product) \<and>
        p_quantity product \<noteq> 0 \<and>
        s_value f =
          Num (of_int (s_quantity f) / of_int (p_quantity product) * p_total_price product))
     (filter (\<lambda>product. quantityOf (quantities sofa_dialog) (p_id product) > 0)
        (o_products sofa_order))
     (splitFragments (frozen_clock 1000) sofa_order sofa_dialog)"
proof -
  note inst = fragment_value_proportional
    [of sofa_form 40 "splitFragments (frozen_clock 1000) sofa_order sofa_dialog"
        "frozen_clock 1000" True sofa_order sofa_dialog]
  have mem: "OnSplit (splitFragments (frozen_clock 1000) sofa_order sofa_dialog)
     \<in> set (snd (handleSplit (frozen_clock 1000) True sofa_order sofa_dialog))"
  proof -
    have "hasQuantity sofa_dialog" "\<not> hasExcess sofa_order sofa_dialog"
      by (simp_all add: hasQuantity_def hasExcess_def objectValues_def quantityOf_def
          sofa_order_def sofa_dialog_def sofa_def chair_def or0_def)
    then show ?thesis by (simp add: handleSplit_def)
  qed
  have val: "calculateFragmentValue sofa_form 40 = 200"
    using inst by (simp add: example_defs)
  have zero: "productTotalQuantity no_draft_form = 0" "calculateFragmentValue no_draft_form 3 = 0"
    using fragment_value_proportional [of no_draft_form 3] by (simp_all add: example_defs)
  have vals: "map s_value (splitFragments (frozen_clock 1000) sofa_order sofa_dialog) = [Num 200]"
    by (simp add: dialog_defs sofa_def chair_def or0_def)
  from inst mem val zero vals show ?thesis by blast
qed

text \<open>
  The expression that both versions of the dialog use has no case for \<open>T = 0\<close>: there its
  result is not a finite number.
\<close>

lemma splitFragment_value:
  "s_value (splitFragment clock order d (i, product)) =
     (if p_quantity product = 0 then NonFinite
      else Num (of_int (quantityOf (quantities d) (p_id product)) /
                of_int (p_quantity product) * p_total_price product))"
  by (simp add: splitFragment_def js_div_def js_mul_def)

lemma hasExcess_v2_loading [simp]:
  "hasExcess_v2 order (d \<lparr> loading := b \<rparr>) = hasExcess_v2 order d"
  by (simp add: hasExcess_v2_def)

lemma handleSplit_v2_OnSplit:
  assumes "OnSplit fs \<in> set (snd (handleSplit_v2 clock resolved order d))"
  shows "\<not> hasExcess_v2 order d \<and> fs = splitFragments clock order d"
  using assms by (auto simp: handleSplit_v2_def Let_def split: if_splits)

text \<open>
  The second version of the dialog hands \<open>onSplit\<close> the value \<open>q / T * V\<close> for a product with
  \<open>T \<noteq> 0\<close>; its check against the available quantity does not keep \<open>T = 0\<close> out.
\<close>

lemma second_dialog_values:
  assumes "OnSplit fs \<in> set (snd (handleSplit_v2 clock resolved order d))"
  shows "list_all2
     (\<lambda>product f.
        s_value f =
          (if p_quantity product = 0 then NonFinite
           else Num (of_int (quantityOf (quantities d) (p_id product)) /
                     of_int (p_quantity product) * p_total_price product)))
     (filter (\<lambda>product. quantityOf (quantities d) (p_id product) > 0) (o_products order))
     fs"
proof -
  have "fs = splitFragments clock order d"
    using handleSplit_v2_OnSplit [OF assms] by simp
  then show ?thesis
    unfolding splitFragments_def
    by (simp add: list_all2_map_enumerate splitFragment_value)
qed

lemmas collision_defs =
  collision_order_def collision_dialog_def bench_def plank_def handleQuantityChange_v2_def
  getAvailableQuantity_def or_str_def or0_def quantityOf_def objectValues_def

lemma collision_facts:
  "quantities collision_dialog = [(''x'', 2)]"
  "hasQuantity collision_dialog"
  "\<not> hasExcess_v2 collision_order collision_dialog"
  "hasExcess collision_order collision_dialog"
  by (simp_all add: hasQuantity_def hasExcess_v2_def hasExcess_def collision_defs Let_def)

text \<open>
  C1 at an order the second version of the dialog accepts. The plank has \<open>T = 0\<close> and
  \<open>V = 7\<close>, and its \<open>id\<close> is the \<open>product_id\<close> of the bench (5 units). The lookup of
  \<open>getAvailableQuantity\<close> finds the bench first, so 5 units count as available for the plank:
  the input keeps the 2 units typed, the excess check passes, and \<open>onSplit\<close> receives one
  fragment whose value \<open>(7 / 0) * 2\<close> is not finite, where the value of a fragment of a
  product with \<open>T = 0\<close> is to be \<open>0\<close>. The first version of the dialog refuses the same
  quantities.
\<close>

theorem second_dialog_nonfinite_value:
  "p_quantity plank = 0 \<and>
   getAvailableQuantity collision_order ''x'' = 5 \<and>
   quantities collision_dialog = [(''x'', 2)] \<and>
   splitValues (snd (handleSplit_v2 (frozen_clock 1000) True collision_order collision_dialog)) =
     [NonFinite] \<and>
   snd (handleSplit (frozen_clock 1000) True collision_order collision_dialog) =
     [Alert QuantityTooLarge]"
proof -
  have a: "p_quantity plank = 0" "getAvailableQuantity collision_order ''x'' = 5"
    by (simp_all add: collision_defs Let_def)
  have vals: "map s_value (splitFragments (frozen_clock 1000) collision_order collision_dialog) =
      [NonFinite]"
    by (simp add: splitFragments_def splitFragment_value collision_facts(1)
        collision_order_def bench_def plank_def quantityOf_def or0_def)
  have "splitValues (snd (handleSplit_v2 (frozen_clock 1000) True collision_order collision_dialog)) =
     [NonFinite]"
    using collision_facts vals by (simp add: handleSplit_v2_def)
  moreover have "snd (handleSplit (frozen_clock 1000) True collision_order collision_dialog) =
     [Alert QuantityTooLarge]"
    using collision_facts by (simp add: handleSplit_def)
  ultimately show ?thesis using a collision_facts(1) by simp
qed

section \<open>Refused saves\<close>









section \<open>The list handed to the save callback\<close>

lemma filled_quantity: "filled d \<Longrightarrow> Some (or0 (f_quantity d)) = f_quantity d"
  by (auto simp: filled_def truthy_num_def or0_def split: option.splits)

lemma filled_date: "filled d \<Longrightarrow> Some (or_date (f_scheduledDate d) t) = f_scheduledDate d"
  by (auto simp: filled_def or_date_def split: option.splits)

lemma savedFragment_v1_fields:
  "f_productId (savedFragment_v1 clock s (i, d)) = Some (selectedProductId s)"
  "f_orderId (savedFragment_v1 clock s (i, d)) = Some (order_id s)"
  "f_quantity (savedFragment_v1 clock s (i, d)) = Some (or0 (f_quantity d))"
  "f_scheduledDate (savedFragment_v1 clock s (i, d)) = Some (or_date (f_scheduledDate d) (clock i))"
  "f_value (savedFragment_v1 clock s (i, d)) = Some (calculateFragmentValue s (or0 (f_quantity d)))"
  by (simp_all add: savedFragment_v1_def no_fields_def)

lemma savedFragment_v2_fields:
  "f_productId (savedFragment_v2 clock s (i, d)) = Some (selectedProductId s)"
  "f_orderId (savedFragment_v2 clock s (i, d)) = Some (order_id s)"
  "f_quantity (savedFragment_v2 clock s (i, d)) = Some (or0 (f_quantity d))"
  "f_scheduledDate (savedFragment_v2 clock s (i, d)) = Some (or_date (f_scheduledDate d) (clock i))"
  "f_value (savedFragment_v2 clock s (i, d)) = Some (calculateFragmentValue s (or0 (f_quantity d)))"
  by (simp_all add: savedFragment_v2_def no_fields_def)

lemma finalized_v1:
  assumes "list_all filled (fragments s)"
  shows "list_all2
     (\<lambda>d f. f_productId f = Some (selectedProductId s) \<and> f_orderId f = Some (order_id s) \<and>
            f_quantity f = f_quantity d \<and> f_scheduledDate f = f_scheduledDate d)
     (fragments s) (map (savedFragment_v1 clock s) (enumerate 0 (fragments s)))"
proof (rule list_all2_map_enumerate)
  fix i d
  assume "d \<in> set (fragments s)"
  with assms have "filled d" by (simp add: list_all_iff)
  then show "f_productId (savedFragment_v1 clock s (i, d)) = Some (selectedProductId s) \<and>
        f_orderId (savedFragment_v1 clock s (i, d)) = Some (order_id s) \<and>
        f_quantity (savedFragment_v1 clock s (i, d)) = f_quantity d \<and>
        f_scheduledDate (savedFragment_v1 clock s (i, d)) = f_scheduledDate d"
    by (simp add: savedFragment_v1_fields filled_quantity filled_date)
qed

lemma finalized_v2:
  assumes "list_all filled (fragments s)"
  shows "list_all2
     (\<lambda>d f. f_productId f = Some (selectedProductId s) \<and> f_orderId f = Some (order_id s) \<and>
            f_quantity f = f_quantity d \<and> f_scheduledDate f = f_scheduledDate d)
     (fragments s) (map (savedFragment_v2 clock s) (enumerate 0 (fragments s)))"
proof (rule list_all2_map_enumerate)
  fix i d
  assume "d \<in> set (fragments s)"
  with assms have "filled d" by (simp add: list_all_iff)
  then show "f_productId (savedFragment_v2 clock s (i, d)) = Some (selectedProductId s) \<and>
        f_orderId (savedFragment_v2 clock s (i, d)) = Some (order_id s) \<and>
        f_quantity (savedFragment_v2 clock s (i, d)) = f_quantity d \<and>
        f_scheduledDate (savedFragment_v2 clock s (i, d)) = f_scheduledDate d"
    by (simp add: savedFragment_v2_fields filled_quantity filled_date)
qed

lemma handleSave_v1_valid:
  "isValid_v1 s \<Longrightarrow>
     handleSave_v1 clock s =
       (s, OnSave (otherFragments s @ map (savedFragment_v1 clock s) (enumerate 0 (fragments s))))"
  by (simp add: handleSave_v1_def)

lemma handleSave_v2_valid:
  "isValid_v2 s \<Longrightarrow>
     handleSave_v2 clock s =
       (s, OnSave (otherFragments s @ map (savedFragment_v2 clock s) (enumerate 0 (fragments s))))"
  by (simp add: handleSave_v2_def)

text \<open>
  C6. When the drafts are valid, the list handed to the save callback is the persisted
  fragments whose product id differs from the selected product, unchanged and in their
  order, followed by the finalized drafts in the order of the drafts; each finalized draft
  carries the selected product's id, the order's id and the quantity and date of its
  draft. Nothing is removed as a duplicate and nothing else is reordered. This holds for
  both variants of the form.
\<close>

theorem save_keeps_other_products:
  "(isValid_v1 s \<longrightarrow>
      handleSave_v1 clock s =
        (s, OnSave (filter (\<lambda>f. f_productId f \<noteq> Some (selectedProductId s))
                      (initialFragments s) @
                    map (savedFragment_v1 clock s) (enumerate 0 (fragments s)))) \<and>
      list_all2
        (\<lambda>d f. f_productId f = Some (selectedProductId s) \<and>
               f_orderId f = Some (order_id s) \<and>
               f_quantity f = f_quantity d \<and> f_scheduledDate f = f_scheduledDate d)
        (fragments s) (map (savedFragment_v1 clock s) (enumerate 0 (fragments s)))) \<and>
   (isValid_v2 s \<longrightarrow>
      handleSave_v2 clock s =
        (s, OnSave (filter (\<lambda>f. f_productId f \<noteq> Some (selectedProductId s))
                      (initialFragments s) @
                    map (savedFragment_v2 clock s) (enumerate 0 (fragments s)))) \<and>
      list_all2
        (\<lambda>d f. f_productId f = Some (selectedProductId s) \<and>
               f_orderId f = Some (order_id s) \<and>
               f_quantity f = f_quantity d \<and> f_scheduledDate f = f_scheduledDate d)
        (fragments s) (map (savedFragment_v2 clock s) (enumerate 0 (fragments s))))"
proof (intro conjI impI)
  assume v: "isValid_v1 s"
  then show "handleSave_v1 clock s =
        (s, OnSave (filter (\<lambda>f. f_productId f \<noteq> Some (selectedProductId s))
                      (initialFragments s) @
                    map (savedFragment_v1 clock s) (enumerate 0 (fragments s))))"
    using handleSave_v1_valid [of s clock] by (simp add: otherFragments_def)
  from v have "list_all filled (fragments s)" by (simp add: isValid_v1_def)
  then show "list_all2
        (\<lambda>d f. f_productId f = Some (selectedProductId s) \<and>
               f_orderId f = Some (order_id s) \<and>
               f_quantity f = f_quantity d \<and> f_scheduledDate f = f_scheduledDate d)
        (fragments s) (map (savedFragment_v1 clock s) (enumerate 0 (fragments s)))"
    by (rule finalized_v1)
next
  assume v: "isValid_v2 s"
  then show "handleSave_v2 clock s =
        (s, OnSave (filter (\<lambda>f. f_productId f \<noteq> Some (selectedProductId s))
                      (initialFragments s) @
                    map (savedFragment_v2 clock s) (enumerate 0 (fragments s))))"
    using handleSave_v2_valid [of s clock] by (simp add: otherFragments_def)
  from v have "list_all filled (fragments s)" by (simp add: isValid_v2_def)
  then show "list_all2
        (\<lambda>d f. f_productId f = Some (selectedProductId s) \<and>
               f_orderId f = Some (order_id s) \<and>
               f_quantity f = f_quantity d \<and> f_scheduledDate f = f_scheduledDate d)
        (fragments s) (map (savedFragment_v2 clock s) (enumerate 0 (fragments s)))"
    by (rule finalized_v2)
qed

lemma merge_form_valid: "isValid_v1 merge_form" "isValid_v2 merge_form"
  by (simp_all add: validity_defs merge_form_def persisted_def example_defs)

theorem save_keeps_other_products_witness:
  "isValid_v1 merge_form \<and> isValid_v2 merge_form \<and>
   savedFragments (snd (handleSave_v1 (frozen_clock 1000) merge_form)) =
     [persisted ''a'' ''p2'' 1 4 0, persisted ''c'' ''p2'' 2 6 day_ms] @
     map (savedFragment_v1 (frozen_clock 1000) merge_form) (enumerate 0 (fragments merge_form)) \<and>
   savedProductIds (snd (handleSave_v2 (frozen_clock 1000) merge_form)) =
     [Some ''p2'', Some ''p2'', Some ''p1'', Some ''p1'']"
proof -
  note inst = save_keeps_other_products [of merge_form "frozen_clock 1000"]
  have others: "filter (\<lambda>f. f_productId f \<noteq> Some (selectedProductId merge_form))
      (initialFragments merge_form) =
    [persisted ''a'' ''p2'' 1 4 0, persisted ''c'' ''p2'' 2 6 day_ms]"
    by (simp add: merge_form_def sofa_form_def persisted_def)
  have ids: "map f_productId
      (map (savedFragment_v2 (frozen_clock 1000) merge_form) (enumerate 0 (fragments merge_form))) =
    [Some ''p1'', Some ''p1'']"
    by (simp add: merge_form_def sofa_form_def savedFragment_v2_fields)
  have pids: "map f_productId [persisted ''a'' ''p2'' 1 4 0, persisted ''c'' ''p2'' 2 6 day_ms] =
    [Some ''p2'', Some ''p2'']"
    by (simp add: persisted_def)
  from inst merge_form_valid others ids pids show ?thesis
    by (simp add: savedFragments_def savedProductIds_def)
qed

text \<open>
  The two examples of the specification: the sofa (100 units, 500.00) split into 40 and 60
  units is valid under the strict policy and saved with the values 200 and 300; a single
  draft of 15 of the 10 chairs is invalid under both policies.
\<close>

lemma example_split_values:
  "isValid_v1 sofa_form \<and>
   map f_value (savedFragments (snd (handleSave_v1 (frozen_clock 1000) sofa_form))) =
     [Some 200, Some 300]"
  by (simp add: handleSave_v1_def savedFragments_def otherFragments_def savedFragment_v1_fields
      calculateFragmentValue_def validity_defs example_defs)

lemma example_excess_invalid:
  "\<not> isValid_v1 chair_excess_form \<and> \<not> isValid_v2 chair_excess_form"
  by (simp add: validity_defs chair_excess_form_def chair_short_form_def example_defs)

section \<open>Switching the selected product\<close>

lemma step_v1_props:
  "initialFragments (step_v1 s e) = initialFragments s"
  "order_id (step_v1 s e) = order_id s"
  "products (step_v1 s e) = products s"
  by (cases e; simp add: addFragment_v1_def removeFragment_def updateFragment_def
        selectProduct_v1_def Let_def)+

lemma run_v1_initialFragments: "initialFragments (run_v1 evs s) = initialFragments s"
  unfolding run_v1_def by (induction evs arbitrary: s) (simp_all add: step_v1_props)

text \<open>The drafts built by the effect depend on the props and on the selection only.\<close>

lemma initFragments_v1_drafts:
  "initFragments_v1 now (s \<lparr> fragments := drafts \<rparr>) = initFragments_v1 now s"
  by (simp add: initFragments_v1_def defaultFragment_v1_def productTotalQuantity_def
      selectedProduct_def Let_def)

lemma selectProduct_v1_discards:
  assumes "pid \<noteq> selectedProductId s"
  shows "selectProduct_v1 now pid (s \<lparr> fragments := drafts \<rparr>) = selectProduct_v1 now pid s"
proof -
  have "initFragments_v1 now (s \<lparr> fragments := drafts, selectedProductId := pid \<rparr>) =
        initFragments_v1 now (s \<lparr> selectedProductId := pid \<rparr>)"
  proof -
    have "s \<lparr> fragments := drafts, selectedProductId := pid \<rparr> =
          (s \<lparr> selectedProductId := pid \<rparr>) \<lparr> fragments := drafts \<rparr>"
      by simp
    then show ?thesis by (simp only: initFragments_v1_drafts)
  qed
  then show ?thesis using assms by (simp add: selectProduct_v1_def Let_def)
qed

lemma saved_others_v1:
  assumes "isValid_v1 s"
  shows "filter (\<lambda>f. f_productId f \<noteq> Some (selectedProductId s))
           (savedFragments (snd (handleSave_v1 clock s))) =
         filter (\<lambda>f. f_productId f \<noteq> Some (selectedProductId s)) (initialFragments s)"
proof -
  have "filter (\<lambda>f. f_productId f \<noteq> Some (selectedProductId s))
          (map (savedFragment_v1 clock s) (enumerate 0 (fragments s))) = []"
    by (auto simp: filter_empty_conv savedFragment_v1_fields)
  then show ?thesis
    using assms by (simp add: handleSave_v1_valid savedFragments_def otherFragments_def)
qed

text \<open>
  C9, as stated, fails. The form opens on the sofa with nothing persisted, the user sets
  the draft to all 100 sofas (a valid split), switches to the chair and sets its draft to
  all 10 chairs. The outer list is still empty, and the list handed to the save callback
  holds the chair's fragment only: the draft entered for the sofa is gone.
\<close>

theorem switch_counterexample:
  "selectedProductId sofa_session = ''p1'' \<and>
   map f_quantity (fragments sofa_session) = [Some 100] \<and>
   isValid_v1 sofa_session \<and>
   selectedProductId switch_session = ''p2'' \<and>
   initialFragments switch_session = [] \<and>
   isValid_v1 switch_session \<and>
   savedProductIds (snd (handleSave_v1 (frozen_clock 3000) switch_session)) = [Some ''p2'']"
  by (simp add: switch_session_def sofa_session_def run_v1_def openForm_v1_def
      selectProduct_v1_def updateFragment_def initFragments_v1_def defaultFragment_v1_def
      handleSave_v1_def savedProductIds_def savedFragments_def otherFragments_def
      savedFragment_v1_fields validity_defs example_defs Let_def)

text \<open>
  C9, amended. Switching the selection to another product rebuilds the draft list from the
  persisted fragments of that product (or the default draft): the drafts held before the
  switch do not influence the state after it, and are kept only as far as they had been
  persisted. No action of a session changes the outer list \<open>initialFragments\<close>; at the
  final save the fragments of products other than the selected one that reach the save
  callback are exactly the persisted fragments of those products, unchanged and in order.
\<close>

theorem switch_rebuilds_drafts:
  "(pid \<noteq> selectedProductId s \<longrightarrow>
      selectProduct_v1 now pid (s \<lparr> fragments := drafts \<rparr>) = selectProduct_v1 now pid s \<and>
      fragments (selectProduct_v1 now pid s) =
        initFragments_v1 now (s \<lparr> selectedProductId := pid \<rparr>)) \<and>
   initialFragments (run_v1 evs s) = initialFragments s \<and>
   (isValid_v1 (run_v1 evs s) \<longrightarrow>
      filter (\<lambda>f. f_productId f \<noteq> Some (selectedProductId (run_v1 evs s)))
        (savedFragments (snd (handleSave_v1 clock (run_v1 evs s)))) =
      filter (\<lambda>f. f_productId f \<noteq> Some (selectedProductId (run_v1 evs s)))
        (initialFragments s))"
  using selectProduct_v1_discards [where pid = pid and s = s]
    saved_others_v1 [where s = "run_v1 evs s"]
  by (simp add: run_v1_initialFragments selectProduct_v1_def Let_def)

theorem switch_rebuilds_drafts_witness:
  "''p2'' \<noteq> selectedProductId merge_form \<and>
   selectProduct_v1 2000 ''p2'' (merge_form \<lparr> fragments := [] \<rparr>) =
     selectProduct_v1 2000 ''p2'' merge_form \<and>
   isValid_v1 (run_v1 [SelectProduct 2000 ''p2''] merge_form) \<and>
   filter (\<lambda>f. f_productId f \<noteq> Some ''p2'')
     (savedFragments
        (snd (handleSave_v1 (frozen_clock 3000) (run_v1 [SelectProduct 2000 ''p2''] merge_form)))) =
     [persisted ''b'' ''p1'' 1 100 0]"
proof -
  note inst = switch_rebuilds_drafts
    [where pid = "''p2''" and s = merge_form and now = 2000 and drafts = "[]"
       and evs = "[SelectProduct 2000 ''p2'']" and clock = "frozen_clock 3000"]
  have sel: "selectedProductId merge_form = ''p1''"
    by (simp add: merge_form_def sofa_form_def)
  have sel': "selectedProductId (run_v1 [SelectProduct 2000 ''p2''] merge_form) = ''p2''"
    by (simp add: run_v1_def selectProduct_v1_def Let_def sel)
  have valid: "isValid_v1 (run_v1 [SelectProduct 2000 ''p2''] merge_form)"
    by (simp add: run_v1_def selectProduct_v1_def initFragments_v1_def Let_def
        merge_form_def persisted_def or_date_def validity_defs example_defs)
  have init: "filter (\<lambda>f. f_productId f \<noteq> Some ''p2'') (initialFragments merge_form) =
      [persisted ''b'' ''p1'' 1 100 0]"
    by (simp add: merge_form_def persisted_def)
  from inst sel sel' valid init show ?thesis by simp
qed

section \<open>Generated identifiers\<close>

text \<open>
  C7 at a session the form allows: on the stool (3 units) two drafts are added, the first
  draft is removed and one more draft is added. The drafts are then numbered 2, 3, 3, the
  split is valid, and when the three drafts are mapped within one millisecond the second
  and the third saved fragment receive the same identifier.
\<close>

theorem generated_ids_collide:
  "map f_fragmentNumber (fragments renumbered_session) = [Some 2, Some 3, Some 3] \<and>
   map f_id (fragments renumbered_session) = [None, None, None] \<and>
   isValid_v1 renumbered_session \<and>
   savedIds (snd (handleSave_v1 (frozen_clock 5000) renumbered_session)) =
     [Some ''o7-frag-2-5000'', Some ''o7-frag-3-5000'', Some ''o7-frag-3-5000'']"
  by (simp add: renumbered_session_def run_v1_def openForm_v1_def addFragment_v1_def
      removeFragment_def dropIndex_def initFragments_v1_def defaultFragment_v1_def
      lastScheduledDate_def addDays_def handleSave_v1_def savedIds_def savedFragments_def
      otherFragments_def
      savedFragment_v1_def generatedId_def or_str_def or_num_def show_int_def show_nat.simps
      frozen_clock_def validity_defs example_defs Let_def)

section \<open>Adding a draft\<close>

lemma startOfDay_le: "startOfDay now \<le> now"
  by (simp add: startOfDay_def day_ms_def)

text \<open>
  The second variant of the form appends one draft, numbered with the previous length plus
  one, of quantity 1, dated one day after the last draft's date but not before the start
  of today, and dated now when the last draft has no date or there is no draft.
\<close>

lemma addFragment_v2_appends:
  "\<exists>x d. fragments (addFragment_v2 now rnd s) = fragments s @ [x] \<and>
     f_fragmentNumber x = Some (int (length (fragments s)) + 1) \<and>
     f_quantity x = Some 1 \<and>
     f_scheduledDate x = Some d \<and>
     d = (case lastScheduledDate (fragments s) of
            Some l \<Rightarrow> max (startOfDay now) (addDays l 1)
          | None \<Rightarrow> now) \<and>
     startOfDay now \<le> d"
  using startOfDay_le [of now]
  by (auto simp: addFragment_v2_def Let_def no_fields_def split: option.splits)

text \<open>The first variant appends the same draft, but its date is not compared to today.\<close>

lemma addFragment_v1_appends:
  "\<exists>x. fragments (addFragment_v1 now s) = fragments s @ [x] \<and>
     f_fragmentNumber x = Some (int (length (fragments s)) + 1) \<and>
     f_quantity x = Some 1 \<and>
     f_scheduledDate x =
       Some (case lastScheduledDate (fragments s) of Some l \<Rightarrow> addDays l 1 | None \<Rightarrow> now)"
  by (auto simp: addFragment_v1_def Let_def no_fields_def split: option.splits)

text \<open>
  C8 at a form the first variant can hold: the sofa has one persisted fragment scheduled on
  day 100 and the form is opened on day 110. The draft that \<open>addFragment\<close> appends is
  scheduled on day 101, nine days before today.
\<close>

theorem addFragment_v1_past_date:
  "lastScheduledDate (fragments stale_form) = Some (100 * day_ms) \<and>
   lastScheduledDate (fragments (addFragment_v1 (110 * day_ms + 3600000) stale_form)) =
     Some (101 * day_ms) \<and>
   101 * day_ms < startOfDay (110 * day_ms + 3600000)"
  by (simp add: stale_form_def openForm_v1_def initFragments_v1_def addFragment_v1_def
      lastScheduledDate_def addDays_def startOfDay_def or_date_def Let_def example_defs)

end
